theory Spec2Isabelle
  imports Main
begin

section \<open>Virtual DOM nodes (view.ts)\<close>

text \<open>
  An attribute value is \<^verbatim>\<open>string | Function\<close>. A function is opaque: only its identity
  is observable (\<^verbatim>\<open>!==\<close>), so it is a number naming the closure.
  An \<^verbatim>\<open>Attributes\<close> object is the list of its own properties in enumeration order, the
  order of \<^verbatim>\<open>for (let a in attributes)\<close> and of \<^verbatim>\<open>JSON.stringify\<close>. The keys of an
  object are distinct (\<open>distinct_keys\<close>). index.ts passes \<^verbatim>\<open>null\<close> for the attributes,
  and the code reads them through \<^verbatim>\<open>?.\<close>: \<open>None\<close> is \<^verbatim>\<open>null\<close>.
\<close>

datatype AttrValue = AString string | AFunction nat

type_synonym Attributes = "(string \<times> AttrValue) list"

text \<open>
  \<^verbatim>\<open>type NodeType = VNode | string | number\<close>. The numbers of the model are the
  integers (no arithmetic is done on them: the code only takes \<^verbatim>\<open>typeof\<close>, compares with
  \<^verbatim>\<open>!==\<close>, tests truthiness and calls \<^verbatim>\<open>toString\<close>); NaN, fractions and infinities are
  outside the model, and an integer is a number of JavaScript as it stands when it is a
  safe integer (\<open>safe_integer\<close>). Where the code can meet \<^verbatim>\<open>undefined\<close> (\<^verbatim>\<open>children[i]\<close> past the end,
  the first render), the model has \<open>NodeType option\<close> and \<open>None\<close> is \<^verbatim>\<open>undefined\<close>.
  The arguments of \<open>VNode\<close> are \<^verbatim>\<open>nodeName\<close>, \<^verbatim>\<open>attributes\<close> and \<^verbatim>\<open>children\<close>.
\<close>

datatype NodeType =
    VNode string "Attributes option" "NodeType list"
  | JString string
  | JNumber int

definition h :: "string \<Rightarrow> Attributes option \<Rightarrow> NodeType list \<Rightarrow> NodeType" where
  "h nodeName attributes children = VNode nodeName attributes children"

datatype JSType = T_undefined | T_object | T_string | T_number

fun typeof :: "NodeType option \<Rightarrow> JSType" where
  "typeof None = T_undefined"
| "typeof (Some (VNode _ _ _)) = T_object"
| "typeof (Some (JString _)) = T_string"
| "typeof (Some (JNumber _)) = T_number"

definition isVNode :: "NodeType option \<Rightarrow> bool" where
  "isVNode node \<longleftrightarrow> typeof node \<noteq> T_string \<and> typeof node \<noteq> T_number"

text \<open>\<^verbatim>\<open>/^on/.test(attribute)\<close>\<close>

definition isEventAttr :: "string \<Rightarrow> bool" where
  "isEventAttr attribute \<longleftrightarrow> take 2 attribute = ''on''"

definition distinct_keys :: "Attributes option \<Rightarrow> bool" where
  "distinct_keys attrs = (case attrs of None \<Rightarrow> True | Some kvs \<Rightarrow> distinct (map fst kvs))"

text \<open>\<^verbatim>\<open>attributes[name]\<close> on an object, and \<^verbatim>\<open>attributes?.value\<close>: \<open>None\<close> is \<^verbatim>\<open>undefined\<close>.\<close>

definition value_of :: "Attributes option \<Rightarrow> AttrValue option" where
  "value_of attrs = (case attrs of None \<Rightarrow> None | Some kvs \<Rightarrow> map_of kvs ''value'')"

subsection \<open>JSON.stringify on an attributes object\<close>

text \<open>
  \<^verbatim>\<open>JSON.stringify(null)\<close> is \<^verbatim>\<open>"null"\<close>. On an object it writes the own properties in
  enumeration order, leaves out every property whose value is a function, and quotes
  keys and string values: the quote and the backslash are escaped with a backslash, the
  control characters below 0x20 as \<^verbatim>\<open>\b \t \n \f \r\<close> or \<^verbatim>\<open>\u00XX\<close>.
\<close>

definition hex_digit :: "nat \<Rightarrow> char" where
  "hex_digit d = ''0123456789abcdef'' ! (d mod 16)"

definition json_escape :: "char \<Rightarrow> string" where
  "json_escape c =
     (let n = (of_char c :: nat) in
      if n = 0x22 then [CHR 0x5C, CHR 0x22]
      else if n = 0x5C then [CHR 0x5C, CHR 0x5C]
      else if n = 0x08 then [CHR 0x5C, CHR ''b'']
      else if n = 0x09 then [CHR 0x5C, CHR ''t'']
      else if n = 0x0A then [CHR 0x5C, CHR ''n'']
      else if n = 0x0C then [CHR 0x5C, CHR ''f'']
      else if n = 0x0D then [CHR 0x5C, CHR ''r'']
      else if n < 0x20 then [CHR 0x5C, CHR ''u'', CHR ''0'', CHR ''0'', hex_digit (n div 16), hex_digit n]
      else [c])"

definition json_quote :: "string \<Rightarrow> string" where
  "json_quote s = [CHR 0x22] @ concat (map json_escape s) @ [CHR 0x22]"

fun json_members :: "Attributes \<Rightarrow> string list" where
  "json_members [] = []"
| "json_members ((k, AString v) # kvs) = (json_quote k @ '':'' @ json_quote v) # json_members kvs"
| "json_members ((k, AFunction f) # kvs) = json_members kvs"

fun join_commas :: "string list \<Rightarrow> string" where
  "join_commas [] = []"
| "join_commas [s] = s"
| "join_commas (s # t # ss) = s @ '','' @ join_commas (t # ss)"

definition JSON_stringify :: "Attributes option \<Rightarrow> string" where
  "JSON_stringify attrs =
     (case attrs of
        None \<Rightarrow> ''null''
      | Some kvs \<Rightarrow> ''{'' @ join_commas (json_members kvs) @ ''}'')"

section \<open>Difference detection\<close>

text \<open>
  \<^verbatim>\<open>enum ChangedType { None, Type, Text, Node, Value, Attr }\<close>, with a prefix: \<open>None\<close> is
  taken.
\<close>

datatype ChangedType = CT_None | CT_Type | CT_Text | CT_Node | CT_Value | CT_Attr

text \<open>
  What the code throws. \<^verbatim>\<open>TypeError\<close>: a property read or a method call on
  \<^verbatim>\<open>undefined\<close>, a call of a method the receiver does not have, a DOM method given
  \<^verbatim>\<open>undefined\<close> for a node. \<^verbatim>\<open>HierarchyRequestError\<close>: a child appended to a text node.
\<close>

datatype error = TypeError | HierarchyRequestError

text \<open>
  \<^verbatim>\<open>detectVirtualDOMDifference(oldNode, newNode)\<close>, in the order of its tests. With both
  arguments \<^verbatim>\<open>undefined\<close> the types agree, \<^verbatim>\<open>isVNode(undefined)\<close> is true, and
  \<^verbatim>\<open>oldNode.nodeName\<close> throws.
\<close>

definition detectVirtualDOMDifference :: "NodeType option \<Rightarrow> NodeType option \<Rightarrow> error + ChangedType" where
  "detectVirtualDOMDifference oldNode newNode =
     (if typeof oldNode \<noteq> typeof newNode then Inr CT_Type
      else if \<not> isVNode oldNode \<and> oldNode \<noteq> newNode then Inr CT_Text
      else if isVNode oldNode \<and> isVNode newNode then
        (case (oldNode, newNode) of
           (Some (VNode oldName oldAttrs _), Some (VNode newName newAttrs _)) \<Rightarrow>
             if oldName \<noteq> newName then Inr CT_Node
             else if value_of oldAttrs \<noteq> value_of newAttrs then Inr CT_Value
             else if JSON_stringify oldAttrs \<noteq> JSON_stringify newAttrs then Inr CT_Attr
             else Inr CT_None
         | _ \<Rightarrow> Inl TypeError)
      else Inr CT_None)"

section \<open>The native tree\<close>

text \<open>
  The native tree is the host's, not the repository's; the model keeps of it what the
  code reads and writes. A text node has its content. An element has its tag, its
  attributes (name and the value given to \<^verbatim>\<open>setAttribute\<close>, in the order they were
  first set), its event listeners (event name and listener), its \<^verbatim>\<open>value\<close> property
  (\<open>None\<close> is \<^verbatim>\<open>undefined\<close>) and its child nodes.

  The host stores an attribute value as a string: in the attributes of an element
  \<open>AString s\<close> is the string \<open>s\<close>, and \<open>AFunction f\<close> stands for the string the host makes
  of the function (its source text), which the model does not have.
\<close>

datatype Node =
    TextNode string
  | Element (tagName: string) (attrs: Attributes) (listeners: Attributes)
      (valueProp: "AttrValue option") (kids: "Node list")

fun childNodes :: "Node \<Rightarrow> Node list" where
  "childNodes (TextNode s) = []"
| "childNodes (Element tag as ls v cs) = cs"

text \<open>\<^verbatim>\<open>xs[i]\<close> on an array or a NodeList: \<^verbatim>\<open>undefined\<close> past the end.\<close>

definition nth_opt :: "'a list \<Rightarrow> nat \<Rightarrow> 'a option" where
  "nth_opt xs i = (if i < length xs then Some (xs ! i) else None)"

text \<open>
  A call on the native tree, as the log of a reconciliation records it: the receiver and
  the method with its arguments. The receiver is \<open>Live p\<close>, the node reached from the
  node the function was given by the child indices \<open>p\<close> at the time of the call, or
  \<open>Detached\<close>, a node that is no longer in the tree. \<^verbatim>\<open>removeChild\<close> and
  \<^verbatim>\<open>replaceChild\<close> are logged with the index of the child they were given. The calls that
  build a fresh subtree in \<open>createElement\<close> are not logged: the subtree they build is the
  argument of the \<open>AppendChild\<close> or \<open>ReplaceChild\<close> that puts it into the tree.
\<close>

datatype place = Live "nat list" | Detached

datatype native_op =
    AppendChild Node
  | RemoveChild nat
  | ReplaceChild nat Node
  | SetValue "AttrValue option"
  | RemoveAttribute string
  | SetAttribute string AttrValue

type_synonym native_call = "place \<times> native_op"

text \<open>
  The outcome of code that mutates the native tree: the error it threw, if any, the node
  as the code left it (what was done before a throw stays done) and the calls it made.
\<close>

type_synonym 'a effect = "error option \<times> 'a \<times> native_call list"

fun under :: "nat \<Rightarrow> native_call \<Rightarrow> native_call" where
  "under i (Live p, c) = (Live (i # p), c)"
| "under i (Detached, c) = (Detached, c)"

subsection \<open>What the host takes as it is given\<close>

text \<open>
  A plain name: a lower-case letter followed by lower-case letters, digits and hyphens.
  The host accepts such a name as a tag and as an attribute name and stores it unchanged.
\<close>

definition plain_name :: "string \<Rightarrow> bool" where
  "plain_name s \<longleftrightarrow>
     (case s of
        [] \<Rightarrow> False
      | c # cs \<Rightarrow>
          c \<in> set ''abcdefghijklmnopqrstuvwxyz''
          \<and> list_all (\<lambda>d. d \<in> set ''abcdefghijklmnopqrstuvwxyz0123456789-'') cs)"

text \<open>\<^verbatim>\<open>Number.isSafeInteger\<close>: at most 2^53 - 1 in magnitude.\<close>

definition safe_integer :: "int \<Rightarrow> bool" where
  "safe_integer n \<longleftrightarrow> \<bar>n\<bar> \<le> 9007199254740991"

subsection \<open>Materialising a virtual node\<close>

text \<open>
  \<^verbatim>\<open>element.setAttribute(name, value)\<close>: the attribute keeps its place when the element
  has it already. In an HTML document the host puts the name in ASCII lower case before
  it looks for it and stores it, and it throws on a name it does not accept; the model
  stores the name as it is given, which is what the host does with a plain name.
\<close>

fun set_attr :: "Attributes \<Rightarrow> string \<Rightarrow> AttrValue \<Rightarrow> Attributes" where
  "set_attr [] name v = [(name, v)]"
| "set_attr ((k, w) # kvs) name v = (if k = name then (k, v) # kvs else (k, w) # set_attr kvs name v)"

fun setAttribute :: "Node \<Rightarrow> string \<Rightarrow> AttrValue \<Rightarrow> Node" where
  "setAttribute (Element tag as ls v cs) name w = Element tag (set_attr as name w) ls v cs"
| "setAttribute (TextNode s) name w = TextNode s"

text \<open>
  \<^verbatim>\<open>element.addEventListener(name, listener)\<close> with a function for the listener: the host
  does not register the same listener for the same event twice. With a string for the
  listener, which the type \<^verbatim>\<open>Attributes\<close> allows, the host throws a TypeError and
  registers nothing: \<open>createElement_throws\<close> below says when a materialisation meets that,
  and every caller of \<open>createElement\<close> asks it first.
\<close>

fun addEventListener :: "Node \<Rightarrow> string \<Rightarrow> AttrValue \<Rightarrow> Node" where
  "addEventListener (Element tag as ls v cs) name l =
     Element tag as (if (name, l) \<in> set ls then ls else ls @ [(name, l)]) v cs"
| "addEventListener (TextNode s) name l = TextNode s"

fun append_node :: "Node \<Rightarrow> Node \<Rightarrow> Node" where
  "append_node (Element tag as ls v cs) child = Element tag as ls v (cs @ [child])"
| "append_node (TextNode s) child = TextNode s"

text \<open>The own properties a \<^verbatim>\<open>for ... in\<close> loop visits; none on \<^verbatim>\<open>null\<close>.\<close>

definition properties :: "Attributes option \<Rightarrow> Attributes" where
  "properties attributes = (case attributes of None \<Rightarrow> [] | Some kvs \<Rightarrow> kvs)"

text \<open>
  \<^verbatim>\<open>setAttributes(target, attributes)\<close>, called on a fresh element only. The value
  \<^verbatim>\<open>attributes[attribute]\<close> is the one listed with the key.
\<close>

definition setAttributes :: "Node \<Rightarrow> Attributes option \<Rightarrow> Node" where
  "setAttributes target attributes =
     foldl (\<lambda>t (attribute, v).
              if isEventAttr attribute then addEventListener t (drop 2 attribute) v
              else setAttribute t attribute v)
       target (properties attributes)"

text \<open>
  \<^verbatim>\<open>Number.prototype.toString\<close> on a safe integer: its decimal digits. (From 10^21 on
  \<^verbatim>\<open>toString\<close> writes an exponent; what is proved of the text of a number is proved of
  safe integers.)
\<close>

fun digits :: "nat \<Rightarrow> string" where
  "digits n = (if n < 10 then [''0123456789'' ! n] else digits (n div 10) @ [''0123456789'' ! (n mod 10)])"

declare digits.simps [simp del]

definition Number_toString :: "int \<Rightarrow> string" where
  "Number_toString n = (if n < 0 then ''-'' @ digits (nat (- n)) else digits (nat n))"

fun createElement :: "NodeType \<Rightarrow> Node" where
  "createElement (JString s) = TextNode s"
| "createElement (JNumber n) = TextNode (Number_toString n)"
| "createElement (VNode name attributes cs) =
     foldl (\<lambda>element child. append_node element (createElement child))
       (setAttributes (Element name [] [] None []) attributes) cs"

text \<open>
  \<^verbatim>\<open>createElement(node)\<close> throws a TypeError, and returns no node, when \<^verbatim>\<open>setAttributes\<close>
  gives \<^verbatim>\<open>addEventListener\<close> a string: when an element of the tree, the node itself or one
  below it, has an attribute whose name starts with \<^verbatim>\<open>on\<close> and whose value is a string.
  Otherwise it returns the node of \<open>createElement\<close> above. The fresh nodes built before a
  throw are in no tree.
\<close>

fun rejected_listener :: "string \<times> AttrValue \<Rightarrow> bool" where
  "rejected_listener (attribute, AString s) = isEventAttr attribute"
| "rejected_listener (attribute, AFunction f) = False"

fun createElement_throws :: "NodeType \<Rightarrow> bool" where
  "createElement_throws (JString s) = False"
| "createElement_throws (JNumber n) = False"
| "createElement_throws (VNode name attributes cs) =
     (list_ex rejected_listener (properties attributes) \<or> list_ex createElement_throws cs)"

section \<open>Reconciliation\<close>

text \<open>\<^verbatim>\<open>!newNode\<close>: true of \<^verbatim>\<open>undefined\<close>, of the number 0 and of the empty string.\<close>

fun falsy :: "NodeType option \<Rightarrow> bool" where
  "falsy None = True"
| "falsy (Some (JString s)) = (s = [])"
| "falsy (Some (JNumber n)) = (n = 0)"
| "falsy (Some (VNode _ _ _)) = False"

text \<open>
  \<^verbatim>\<open>(newNode as VNode).attributes?.value\<close>: a string and a number have no property
  \<^verbatim>\<open>attributes\<close>, and \<^verbatim>\<open>?.\<close> gives \<^verbatim>\<open>undefined\<close>.
\<close>

fun attributes_value :: "NodeType \<Rightarrow> AttrValue option" where
  "attributes_value (VNode _ attributes _) = value_of attributes"
| "attributes_value (JString _) = None"
| "attributes_value (JNumber _) = None"

fun node_attributes :: "NodeType \<Rightarrow> Attributes option" where
  "node_attributes (VNode _ attributes _) = attributes"
| "node_attributes (JString _) = None"
| "node_attributes (JNumber _) = None"

text \<open>
  \<^verbatim>\<open>updateValue(target, newValue)\<close>: \<^verbatim>\<open>target.value = newValue\<close>. It throws on
  \<^verbatim>\<open>undefined\<close>. On a text node the assignment makes a property the model does not keep.
\<close>

fun assign_value :: "Node \<Rightarrow> AttrValue option \<Rightarrow> Node" where
  "assign_value (Element tag as ls v cs) newValue = Element tag as ls newValue cs"
| "assign_value (TextNode s) newValue = TextNode s"

fun updateValue :: "Node option \<Rightarrow> AttrValue option \<Rightarrow> Node option effect" where
  "updateValue None newValue = (Some TypeError, None, [])"
| "updateValue (Some target) newValue =
     (None, Some (assign_value target newValue), [(Live [], SetValue newValue)])"

text \<open>
  \<^verbatim>\<open>target.removeAttribute(name)\<close> and \<^verbatim>\<open>target.setAttribute(name, value)\<close> where the target is
  what \<^verbatim>\<open>parent.childNodes[index]\<close> gave: \<^verbatim>\<open>undefined\<close> has no properties and a text node
  has neither method, so both throw there.
\<close>

fun target_removeAttribute :: "Node option \<Rightarrow> string \<Rightarrow> error + Node option" where
  "target_removeAttribute (Some (Element tag as ls v cs)) name =
     Inr (Some (Element tag (filter (\<lambda>(k, w). k \<noteq> name) as) ls v cs))"
| "target_removeAttribute _ name = Inl TypeError"

fun target_setAttribute :: "Node option \<Rightarrow> string \<Rightarrow> AttrValue \<Rightarrow> error + Node option" where
  "target_setAttribute (Some (Element tag as ls v cs)) name w =
     Inr (Some (setAttribute (Element tag as ls v cs) name w))"
| "target_setAttribute _ name w = Inl TypeError"

text \<open>The two loops of \<^verbatim>\<open>updateAttributes\<close>.\<close>

fun remove_loop :: "Node option \<Rightarrow> Attributes \<Rightarrow> Node option effect" where
  "remove_loop target [] = (None, target, [])"
| "remove_loop target ((attribute, w) # rest) =
     (if \<not> isEventAttr attribute then
        (case target_removeAttribute target attribute of
           Inl e \<Rightarrow> (Some e, target, [])
         | Inr target' \<Rightarrow>
             (case remove_loop target' rest of
                (e, target'', calls) \<Rightarrow> (e, target'', (Live [], RemoveAttribute attribute) # calls)))
      else remove_loop target rest)"

fun set_loop :: "Node option \<Rightarrow> Attributes \<Rightarrow> Node option effect" where
  "set_loop target [] = (None, target, [])"
| "set_loop target ((attribute, w) # rest) =
     (if \<not> isEventAttr attribute then
        (case target_setAttribute target attribute w of
           Inl e \<Rightarrow> (Some e, target, [])
         | Inr target' \<Rightarrow>
             (case set_loop target' rest of
                (e, target'', calls) \<Rightarrow> (e, target'', (Live [], SetAttribute attribute w) # calls)))
      else set_loop target rest)"

definition updateAttributes ::
  "Node option \<Rightarrow> Attributes option \<Rightarrow> Attributes option \<Rightarrow> Node option effect" where
  "updateAttributes target oldAttributes newAttributes =
     (case remove_loop target (properties oldAttributes) of
        (Some e, target', calls) \<Rightarrow> (Some e, target', calls)
      | (None, target', calls) \<Rightarrow>
          (case set_loop target' (properties newAttributes) of
             (e, target'', calls') \<Rightarrow> (e, target'', calls @ calls')))"

text \<open>
  What a function did to \<^verbatim>\<open>parent.childNodes[index]\<close>, seen from the parent: the child is
  the node the function left, and its calls are one level further down.
\<close>

fun put_child :: "Node \<Rightarrow> nat \<Rightarrow> Node option \<Rightarrow> Node" where
  "put_child (Element tag as ls v cs) index (Some t) = Element tag as ls v (cs[index := t])"
| "put_child parent index target = parent"

definition at_child :: "Node \<Rightarrow> nat \<Rightarrow> Node option effect \<Rightarrow> Node effect" where
  "at_child parent index r =
     (case r of (e, target, calls) \<Rightarrow> (e, put_child parent index target, map (under index) calls))"

text \<open>\<^verbatim>\<open>parent.appendChild(child)\<close>: a text node takes no children.\<close>

fun appendChild :: "Node \<Rightarrow> Node \<Rightarrow> Node effect" where
  "appendChild (TextNode s) child = (Some HierarchyRequestError, TextNode s, [])"
| "appendChild (Element tag as ls v cs) child =
     (None, Element tag as ls v (cs @ [child]), [(Live [], AppendChild child)])"

text \<open>
  \<^verbatim>\<open>parent.removeChild(target)\<close> and \<^verbatim>\<open>parent.replaceChild(node, target)\<close> with
  \<^verbatim>\<open>target = parent.childNodes[index]\<close>: both throw when the target is \<^verbatim>\<open>undefined\<close>.
\<close>

definition removeChild :: "Node \<Rightarrow> Node option \<Rightarrow> nat \<Rightarrow> Node effect" where
  "removeChild parent target index =
     (case (parent, target) of
        (Element tag as ls v cs, Some child) \<Rightarrow>
          (None, Element tag as ls v (take index cs @ drop (Suc index) cs), [(Live [], RemoveChild index)])
      | _ \<Rightarrow> (Some TypeError, parent, []))"

definition replaceChild :: "Node \<Rightarrow> Node \<Rightarrow> Node option \<Rightarrow> nat \<Rightarrow> Node effect" where
  "replaceChild parent node target index =
     (case (parent, target) of
        (Element tag as ls v cs, Some child) \<Rightarrow>
          (None, Element tag as ls v (cs[index := node]), [(Live [], ReplaceChild index node)])
      | _ \<Rightarrow> (Some TypeError, parent, []))"

fun detached :: "native_call \<Rightarrow> native_call" where
  "detached (receiver, c) = (Detached, c)"

fun node_children :: "NodeType \<Rightarrow> NodeType list" where
  "node_children (VNode _ _ children) = children"
| "node_children (JString _) = []"
| "node_children (JNumber _) = []"

definition opt_size :: "NodeType option \<Rightarrow> nat" where
  "opt_size node = (case node of None \<Rightarrow> 0 | Some x \<Rightarrow> Suc (size x))"

text \<open>The sizes the termination of the reconciliation is measured with.\<close>

lemma size_list_member: "x \<in> set xs \<Longrightarrow> Suc (f x) \<le> size_list f xs"
  by (induction xs) auto

lemma size_nth_opt: "opt_size (nth_opt xs i) \<le> size_list size xs"
  using size_list_member [of "xs ! i" xs size] by (simp add: nth_opt_def opt_size_def)

lemma size_node_children: "size_list size (node_children n) < Suc (size n)"
  by (cases n) simp_all

text \<open>
  \<^verbatim>\<open>updateElement(parent, oldNode, newNode, index)\<close> and its loop over the children,
  \<^verbatim>\<open>for (let i = 0; i < newNode.children.length || i < oldNode.children.length; i++)\<close>.
  The loop calls \<^verbatim>\<open>updateElement(target, ...)\<close> with the \<^verbatim>\<open>target\<close> it read from
  \<^verbatim>\<open>parent.childNodes[index]\<close>; when that is \<^verbatim>\<open>undefined\<close> the call throws at its first
  statement, \<^verbatim>\<open>parent.appendChild\<close> or \<^verbatim>\<open>parent.childNodes\<close>.

  In the \<^verbatim>\<open>switch\<close>, the case of \<^verbatim>\<open>Type\<close>, \<^verbatim>\<open>Text\<close> and \<^verbatim>\<open>Node\<close> has no \<^verbatim>\<open>return\<close>: after
  \<^verbatim>\<open>replaceChild\<close> control falls into the case of \<^verbatim>\<open>Value\<close>, and \<^verbatim>\<open>updateValue\<close> is
  called on \<^verbatim>\<open>target\<close>, the node that was just taken out of the tree. The cases of
  \<^verbatim>\<open>Value\<close> and \<^verbatim>\<open>Attr\<close> end with \<^verbatim>\<open>return\<close>: the loop over the children is not reached.

  The argument \<^verbatim>\<open>createElement(newNode)\<close> of \<^verbatim>\<open>appendChild\<close> and of \<^verbatim>\<open>replaceChild\<close> is
  evaluated before the call: when it throws, the parent has not been touched.
\<close>

function updateElement :: "Node \<Rightarrow> NodeType option \<Rightarrow> NodeType option \<Rightarrow> nat \<Rightarrow> Node effect"
  and updateChildren :: "Node option \<Rightarrow> NodeType list \<Rightarrow> NodeType list \<Rightarrow> nat \<Rightarrow> Node option effect"
where
  "updateElement parent oldNode newNode index =
     (case oldNode of
        None \<Rightarrow>
          (case newNode of
             None \<Rightarrow> (Some TypeError, parent, [])
           | Some node \<Rightarrow>
               if createElement_throws node then (Some TypeError, parent, [])
               else appendChild parent (createElement node))
      | Some old \<Rightarrow>
          let target = nth_opt (childNodes parent) index in
          (case newNode of
             None \<Rightarrow> removeChild parent target index
           | Some node \<Rightarrow>
               if falsy newNode then removeChild parent target index
               else
                 (case detectVirtualDOMDifference oldNode newNode of
                    Inl e \<Rightarrow> (Some e, parent, [])
                  | Inr changeType \<Rightarrow>
                      if changeType = CT_Type \<or> changeType = CT_Text \<or> changeType = CT_Node then
                        if createElement_throws node then (Some TypeError, parent, [])
                        else
                        (case replaceChild parent (createElement node) target index of
                           (Some e, parent', calls) \<Rightarrow> (Some e, parent', calls)
                         | (None, parent', calls) \<Rightarrow>
                             (case updateValue target (attributes_value node) of
                                (e, target', calls') \<Rightarrow> (e, parent', calls @ map detached calls')))
                      else if changeType = CT_Value then
                        at_child parent index (updateValue target (attributes_value node))
                      else if changeType = CT_Attr then
                        at_child parent index
                          (updateAttributes target (node_attributes old) (node_attributes node))
                      else if isVNode oldNode \<and> isVNode newNode then
                        at_child parent index
                          (updateChildren target (node_children old) (node_children node) 0)
                      else (None, parent, []))))"
| "updateChildren target oldChildren newChildren i =
     (if i < length newChildren \<or> i < length oldChildren then
        (case target of
           None \<Rightarrow> (Some TypeError, None, [])
         | Some parent \<Rightarrow>
             (case updateElement parent (nth_opt oldChildren i) (nth_opt newChildren i) i of
                (Some e, parent', calls) \<Rightarrow> (Some e, Some parent', calls)
              | (None, parent', calls) \<Rightarrow>
                  (case updateChildren (Some parent') oldChildren newChildren (Suc i) of
                     (e, target', calls') \<Rightarrow> (e, target', calls @ calls'))))
      else (None, target, []))"
  by pat_completeness auto

termination
proof (relation "measures [
     (\<lambda>x. case x of Inl (p, oldNode, newNode, i) \<Rightarrow> opt_size oldNode + opt_size newNode
                  | Inr (t, os, ns, i) \<Rightarrow> size_list size os + size_list size ns),
     (\<lambda>x. case x of Inl (p, oldNode, newNode, i) \<Rightarrow> 0
                  | Inr (t, os, ns, i) \<Rightarrow> Suc (max (length os) (length ns)) - i)]", goal_cases)
  case 1
  show ?case by simp
next
  case (2 parent oldNode newNode index old target node changeType)
  from size_node_children [of old] size_node_children [of node] 2
  show ?case by (auto simp: opt_size_def)
next
  case (3 target oldChildren newChildren i parent)
  from 3(1) size_nth_opt [of oldChildren i] size_nth_opt [of newChildren i]
  show ?case by auto
next
  case 4
  then show ?case by auto
qed

declare updateElement.simps [simp del] updateChildren.simps [simp del]

section \<open>The application (app.ts)\<close>

text \<open>
  The fields of \<^verbatim>\<open>App\<close> that change: the root element, the state the actions mutate,
  \<^verbatim>\<open>oldNode\<close>, \<^verbatim>\<open>newNode\<close> and \<^verbatim>\<open>skipRender\<close> (\<^verbatim>\<open>undefined\<close> at first: false). The view is a
  function of the state; an action takes the state to the state it leaves. The host is
  the application with the number of \<^verbatim>\<open>render\<close> callbacks that \<^verbatim>\<open>setTimeout\<close> has queued
  and the event loop has not run yet: a callback runs after the synchronous segment that
  queued it has ended.
\<close>

record 's App =
  element :: Node
  state :: 's
  oldNode :: "NodeType option"
  newNode :: "NodeType option"
  skipRender :: bool

type_synonym 's host = "'s App \<times> nat"

fun scheduleRender :: "'s host \<Rightarrow> 's host" where
  "scheduleRender (app, queued) =
     (if \<not> skipRender app then (app\<lparr>skipRender := True\<rparr>, Suc queued) else (app, queued))"

fun resolveNode :: "('s \<Rightarrow> NodeType) \<Rightarrow> 's host \<Rightarrow> 's host" where
  "resolveNode view (app, queued) = scheduleRender (app\<lparr>newNode := Some (view (state app))\<rparr>, queued)"

text \<open>
  A wrapped action of \<^verbatim>\<open>dispatchAction\<close>: \<^verbatim>\<open>action(state, ...data)\<close>, then
  \<^verbatim>\<open>this.resolveNode()\<close>. The state it is given is the application's (the view passes it).
  The actions and the view of the model return: one that throws ends the call before
  \<^verbatim>\<open>resolveNode\<close> or inside it, and is outside the model.
\<close>

fun dispatched :: "('s \<Rightarrow> NodeType) \<Rightarrow> ('s \<Rightarrow> 's) \<Rightarrow> 's host \<Rightarrow> 's host" where
  "dispatched view action (app, queued) = resolveNode view (app\<lparr>state := action (state app)\<rparr>, queued)"

text \<open>The constructor: it ends with \<^verbatim>\<open>this.resolveNode()\<close>.\<close>

definition new_App :: "Node \<Rightarrow> ('s \<Rightarrow> NodeType) \<Rightarrow> 's \<Rightarrow> 's host" where
  "new_App root view initial =
     resolveNode view
       (\<lparr>element = root, state = initial, oldNode = None, newNode = None, skipRender = False\<rparr>, 0)"

text \<open>
  \<^verbatim>\<open>render()\<close>. When the reconciliation throws, the two assignments after it are not
  reached.
\<close>

definition render :: "'s App \<Rightarrow> 's App effect" where
  "render app =
     (case (if \<not> falsy (oldNode app) then updateElement (element app) (oldNode app) (newNode app) 0
            else (case newNode app of
                    None \<Rightarrow> (Some TypeError, element app, [])
                  | Some node \<Rightarrow>
                      if createElement_throws node then (Some TypeError, element app, [])
                      else appendChild (element app) (createElement node))) of
        (Some e, root, calls) \<Rightarrow> (Some e, app\<lparr>element := root\<rparr>, calls)
      | (None, root, calls) \<Rightarrow>
          (None, app\<lparr>element := root, oldNode := newNode app, skipRender := False\<rparr>, calls))"

text \<open>The event loop runs the next queued callback, if there is one.\<close>

fun run_timeout :: "'s host \<Rightarrow> ('s host) effect option" where
  "run_timeout (app, 0) = None"
| "run_timeout (app, Suc queued) =
     (case render app of (e, app', calls) \<Rightarrow> Some (e, (app', queued), calls))"

text \<open>
  A synchronous segment that calls wrapped actions one after the other: no queued
  callback runs between them. The state the actions leave.
\<close>

definition dispatch_segment :: "('s \<Rightarrow> NodeType) \<Rightarrow> ('s \<Rightarrow> 's) list \<Rightarrow> 's host \<Rightarrow> 's host" where
  "dispatch_segment view actions host = foldl (\<lambda>host action. dispatched view action host) host actions"

definition run_actions :: "('s \<Rightarrow> 's) list \<Rightarrow> 's \<Rightarrow> 's" where
  "run_actions actions s = foldl (\<lambda>s action. action s) s actions"

section \<open>What the properties are stated with\<close>

text \<open>
  The observation of the round-trip property: the tag (the local name), the attributes
  and the children of a native element, and the content of a text node, read back as a
  virtual node. Event listeners cannot be read from a native node.
\<close>

fun read_back :: "Node \<Rightarrow> NodeType" where
  "read_back (TextNode s) = JString s"
| "read_back (Element tag as ls v cs) = VNode tag (Some as) (map read_back cs)"

text \<open>
  What of a virtual node is visible in its native node: the tag, the attributes whose
  names do not start with \<^verbatim>\<open>on\<close> (none for \<^verbatim>\<open>null\<close>), the children, and a leaf as the
  string it is shown as.
\<close>

fun visible_structure :: "NodeType \<Rightarrow> NodeType" where
  "visible_structure (JString s) = JString s"
| "visible_structure (JNumber n) = JString (Number_toString n)"
| "visible_structure (VNode name attributes cs) =
     VNode name (Some (filter (\<lambda>(k, w). \<not> isEventAttr k) (properties attributes)))
       (map visible_structure cs)"

text \<open>The listeners \<open>setAttributes\<close> registers, after those in \<open>ls\<close>.\<close>

definition event_listeners :: "Attributes \<Rightarrow> Attributes \<Rightarrow> Attributes" where
  "event_listeners ls kvs =
     foldl (\<lambda>ls (k, w).
              if isEventAttr k then (if (drop 2 k, w) \<in> set ls then ls else ls @ [(drop 2 k, w)])
              else ls)
       ls kvs"

text \<open>
  A tree the host takes as it is given: every tag is a plain name; every attribute whose
  name does not start with \<^verbatim>\<open>on\<close> has a plain name and a string for its value; every
  attribute whose name starts with \<^verbatim>\<open>on\<close> has a function for its value; every number is
  a safe integer.
\<close>

fun plain_attribute :: "string \<times> AttrValue \<Rightarrow> bool" where
  "plain_attribute (attribute, AString s) \<longleftrightarrow> \<not> isEventAttr attribute \<and> plain_name attribute"
| "plain_attribute (attribute, AFunction f) \<longleftrightarrow> isEventAttr attribute"

fun host_plain :: "NodeType \<Rightarrow> bool" where
  "host_plain (VNode name attributes cs) \<longleftrightarrow>
     plain_name name \<and> list_all plain_attribute (properties attributes) \<and> list_all host_plain cs"
| "host_plain (JString s) \<longleftrightarrow> True"
| "host_plain (JNumber n) \<longleftrightarrow> safe_integer n"

text \<open>Every attributes object of the tree has distinct keys, as a JavaScript object has.\<close>

fun well_formed :: "NodeType \<Rightarrow> bool" where
  "well_formed (VNode name attributes cs) \<longleftrightarrow> distinct_keys attributes \<and> list_all well_formed cs"
| "well_formed (JString s) \<longleftrightarrow> True"
| "well_formed (JNumber n) \<longleftrightarrow> True"

text \<open>No leaf of the tree is the number 0 or the empty string.\<close>

fun truthy :: "NodeType \<Rightarrow> bool" where
  "truthy (VNode name attributes cs) \<longleftrightarrow> list_all truthy cs"
| "truthy (JString s) \<longleftrightarrow> s \<noteq> []"
| "truthy (JNumber n) \<longleftrightarrow> n \<noteq> 0"




subsection \<open>Example applications\<close>

text \<open>
  The view and the action of index.ts; the state is the count. The closure given as
  \<^verbatim>\<open>onclick\<close> is new at every call of the view; nothing compares it, and the model names it 0.
\<close>

definition counter_view :: "int \<Rightarrow> NodeType" where
  "counter_view count =
     h ''div'' None
       [h ''p'' None [JNumber count],
        h ''button'' (Some [(''type'', AString ''button''), (''onclick'', AFunction 0)])
          [JString ''count up'']]"

definition increment :: "int \<Rightarrow> int" where
  "increment count = count + 1"

text \<open>A list of as many items as the state says.\<close>

definition list_view :: "nat \<Rightarrow> NodeType" where
  "list_view n = h ''ul'' None (replicate n (h ''li'' None []))"

definition mount_point :: Node where
  "mount_point = Element ''div'' [(''id'', AString ''app'')] [] None []"

section \<open>Properties\<close>

subsection \<open>The example views\<close>

lemma counter_view_materialises: "\<not> createElement_throws (counter_view count)"
  by (simp add: counter_view_def h_def properties_def isEventAttr_def)

lemma list_view_materialises: "\<not> createElement_throws (list_view n)"
  by (simp add: list_view_def h_def properties_def list_ex_iff)

subsection \<open>Classification\<close>

text \<open>
  C7, as stated: classification is defined for every pair of optional nodes, the pair
  of two absent nodes included. It is not: on that pair the code throws.
\<close>

theorem detect_absent_absent_throws:
  "detectVirtualDOMDifference None None = Inl TypeError"
  by (simp add: detectVirtualDOMDifference_def isVNode_def)

text \<open>
  C7, amended: for every pair of optional nodes of which at least one is present,
  classification returns one change kind and does not throw; for the pair of two absent
  nodes it throws a TypeError.
\<close>

theorem detect_total_when_one_present:
  "(old \<noteq> None \<or> new \<noteq> None \<longrightarrow>
      (\<exists>k. detectVirtualDOMDifference old new = Inr k
         \<and> (\<forall>k'. detectVirtualDOMDifference old new = Inr k' \<longrightarrow> k' = k)))
   \<and> (old = None \<and> new = None \<longrightarrow>
      detectVirtualDOMDifference old new = Inl TypeError)"
proof -
  have "\<exists>k. detectVirtualDOMDifference old new = Inr k"
    if "old \<noteq> None \<or> new \<noteq> None"
  proof (cases old)
    case None
    with that obtain n where "new = Some n" by auto
    with None show ?thesis
      by (cases n) (simp_all add: detectVirtualDOMDifference_def)
  next
    case (Some a)
    show ?thesis
    proof (cases new)
      case None
      with Some show ?thesis
        by (cases a) (simp_all add: detectVirtualDOMDifference_def)
    next
      case (Some b)
      with \<open>old = Some a\<close> show ?thesis
        by (cases a; cases b) (simp_all add: detectVirtualDOMDifference_def isVNode_def)
    qed
  qed
  then show ?thesis
    by (auto simp: detectVirtualDOMDifference_def isVNode_def)
qed

theorem detect_total_witness:
  "detectVirtualDOMDifference (Some (JNumber 0)) None = Inr CT_Type
   \<and> detectVirtualDOMDifference None (Some (VNode ''div'' None [])) = Inr CT_Type
   \<and> detectVirtualDOMDifference (Some (JString ''a'')) (Some (JString ''b'')) = Inr CT_Text"
  using detect_total_when_one_present [of "Some (JNumber 0)" None]
    detect_total_when_one_present [of None "Some (VNode ''div'' None [])"]
    detect_total_when_one_present [of "Some (JString ''a'')" "Some (JString ''b'')"]
  by (simp add: detectVirtualDOMDifference_def isVNode_def)



text \<open>Two element nodes with one tag and different \<^verbatim>\<open>value\<close> attributes.\<close>

lemma detect_value:
  "value_of oldAttributes \<noteq> value_of newAttributes \<Longrightarrow>
   detectVirtualDOMDifference (Some (VNode tag oldAttributes oldChildren))
     (Some (VNode tag newAttributes newChildren)) = Inr CT_Value"
  by (simp add: detectVirtualDOMDifference_def isVNode_def)

lemma detect_same: "detectVirtualDOMDifference (Some n) (Some n) = Inr CT_None"
  by (cases n) (simp_all add: detectVirtualDOMDifference_def isVNode_def)

text \<open>
  C1: two element nodes with the same tag and different \<^verbatim>\<open>value\<close> attributes are
  classified as a change of value, whatever their other attributes and their children
  are, and the reconciler assigns the new value to the native node that is at the index:
  that is its only call, the node stays where it is, and nothing else of the parent
  changes.
\<close>

theorem value_change_priority:
  assumes "value_of oldAttributes \<noteq> value_of newAttributes"
  shows "detectVirtualDOMDifference (Some (VNode tag oldAttributes oldChildren))
           (Some (VNode tag newAttributes newChildren)) = Inr CT_Value
     \<and> detectVirtualDOMDifference (Some (VNode tag oldAttributes oldChildren))
           (Some (VNode tag newAttributes newChildren)) \<noteq> Inr CT_Attr
     \<and> (index < length cs \<longrightarrow>
          updateElement (Element ptag pas pls pv cs) (Some (VNode tag oldAttributes oldChildren))
             (Some (VNode tag newAttributes newChildren)) index
          = (None,
             Element ptag pas pls pv (cs[index := assign_value (cs ! index) (value_of newAttributes)]),
             [(Live [index], SetValue (value_of newAttributes))]))"
  using assms
  by (simp add: detect_value updateElement.simps [of "Element ptag pas pls pv cs"] nth_opt_def at_child_def)

theorem value_change_priority_witness:
  "detectVirtualDOMDifference
     (Some (VNode ''input'' (Some [(''type'', AString ''text''), (''value'', AString ''a'')]) []))
     (Some (VNode ''input'' (Some [(''type'', AString ''text''), (''value'', AString ''ab'')]) []))
   = Inr CT_Value
   \<and> updateElement
       (Element ''form'' [] [] None
          [Element ''input'' [(''type'', AString ''text''), (''value'', AString ''a'')] [] None []])
       (Some (VNode ''input'' (Some [(''type'', AString ''text''), (''value'', AString ''a'')]) []))
       (Some (VNode ''input'' (Some [(''type'', AString ''text''), (''value'', AString ''ab'')]) [])) 0
     = (None,
        Element ''form'' [] [] None
          [Element ''input'' [(''type'', AString ''text''), (''value'', AString ''a'')] []
             (Some (AString ''ab'')) []],
        [(Live [0], SetValue (Some (AString ''ab'')))])"
  using value_change_priority
    [of "Some [(''type'', AString ''text''), (''value'', AString ''a'')]"
        "Some [(''type'', AString ''text''), (''value'', AString ''ab'')]"
        "''input''" "[]" "[]" 0
        "[Element ''input'' [(''type'', AString ''text''), (''value'', AString ''a'')] [] None []]"
        "''form''" "[]" "[]" None]
  by (simp add: value_of_def)

subsection \<open>The attribute update\<close>





subsection \<open>Materialisation\<close>

lemma set_attr_fresh: "name \<notin> fst ` set as \<Longrightarrow> set_attr as name w = as @ [(name, w)]"
  by (induction as) auto

lemma setAttributes_loop:
  "distinct (map fst kvs) \<Longrightarrow> fst ` set as \<inter> fst ` set kvs = {} \<Longrightarrow>
   foldl (\<lambda>t (attribute, v).
              if isEventAttr attribute then addEventListener t (drop 2 attribute) v
              else setAttribute t attribute v) (Element tag as ls v cs) kvs
   = Element tag (as @ filter (\<lambda>(k, w). \<not> isEventAttr k) kvs) (event_listeners ls kvs) v cs"
proof (induction kvs arbitrary: as ls)
  case Nil
  then show ?case by (simp add: event_listeners_def)
next
  case (Cons kv kvs)
  obtain k w where kv: "kv = (k, w)" by (cases kv)
  show ?case
  proof (cases "isEventAttr k")
    case True
    with Cons.IH [of as] Cons.prems kv show ?thesis
      by (auto simp: event_listeners_def)
  next
    case False
    from Cons.prems kv have fresh: "k \<notin> fst ` set as" by auto
    from Cons.prems kv have "fst ` set (as @ [(k, w)]) \<inter> fst ` set kvs = {}" by auto
    with Cons.IH [of "as @ [(k, w)]" ls] Cons.prems kv False fresh show ?thesis
      by (simp add: event_listeners_def set_attr_fresh)
  qed
qed

lemma setAttributes_fresh:
  "distinct_keys attributes \<Longrightarrow>
   setAttributes (Element tag [] [] None []) attributes
   = Element tag (filter (\<lambda>(k, w). \<not> isEventAttr k) (properties attributes))
       (event_listeners [] (properties attributes)) None []"
  using setAttributes_loop [of "properties attributes" "[]" tag "[]" None "[]"]
  by (auto simp: setAttributes_def distinct_keys_def properties_def split: option.splits)

lemma setAttributes_shape:
  "\<exists>as' ls'. setAttributes (Element tag as ls v cs) attributes = Element tag as' ls' v cs"
proof -
  have "\<exists>as' ls'. foldl (\<lambda>t (attribute, v).
              if isEventAttr attribute then addEventListener t (drop 2 attribute) v
              else setAttribute t attribute v) (Element tag as ls v cs) kvs = Element tag as' ls' v cs" for kvs
    by (induction kvs arbitrary: as ls) auto
  then show ?thesis by (simp add: setAttributes_def)
qed

lemma append_loop:
  "foldl (\<lambda>element child. append_node element (f child)) (Element tag as ls v cs0) cs
   = Element tag as ls v (cs0 @ map f cs)"
  by (induction cs arbitrary: cs0) auto

lemma childNodes_createElement:
  "childNodes (createElement (VNode name attributes cs)) = map createElement cs"
  using setAttributes_shape [of name "[]" "[]" None "[]" attributes]
  by (auto simp: append_loop)

lemma createElement_VNode:
  "distinct_keys attributes \<Longrightarrow>
   createElement (VNode name attributes cs)
   = Element name (filter (\<lambda>(k, w). \<not> isEventAttr k) (properties attributes))
       (event_listeners [] (properties attributes)) None (map createElement cs)"
  by (simp add: setAttributes_fresh append_loop)

text \<open>
  C8, as stated: what is read back from the native node that \<open>createElement\<close> built is
  the node it was built from. It is not for the button of index.ts: its \<^verbatim>\<open>onclick\<close> is
  registered as a listener and is not among the attributes of the native node.
\<close>

theorem roundtrip_loses_event_attribute:
  "read_back (createElement
      (VNode ''button'' (Some [(''type'', AString ''button''), (''onclick'', AFunction 0)])
         [JString ''count up'']))
   = VNode ''button'' (Some [(''type'', AString ''button'')]) [JString ''count up'']
   \<and> read_back (createElement
      (VNode ''button'' (Some [(''type'', AString ''button''), (''onclick'', AFunction 0)])
         [JString ''count up'']))
   \<noteq> VNode ''button'' (Some [(''type'', AString ''button''), (''onclick'', AFunction 0)])
         [JString ''count up'']"
  by (simp add: setAttributes_def properties_def isEventAttr_def)

text \<open>
  C8, amended: for every node that the host takes as it is given (plain names for the tags
  and for the attributes that are not events, strings for the values of those attributes,
  functions for the values of the attributes whose names start with \<^verbatim>\<open>on\<close>, safe integers
  for the numbers) and whose attribute objects have distinct keys, \<open>createElement\<close> does
  not throw, and what is read back from the native node it built is the node's tag, its
  attributes whose names do not start with \<^verbatim>\<open>on\<close>, in their order (none when the
  attributes are \<^verbatim>\<open>null\<close>), and its children read back in the same way; a leaf reads
  back as the string form of its value.
\<close>

theorem roundtrip_visible_structure:
  "well_formed n \<Longrightarrow> host_plain n \<Longrightarrow>
   \<not> createElement_throws n \<and> read_back (createElement n) = visible_structure n"
proof (induction n)
  case (VNode name attributes cs)
  then have kids: "map (read_back \<circ> createElement) cs = map visible_structure cs"
    and quiet: "\<not> list_ex createElement_throws cs"
    by (auto simp: list_all_iff list_ex_iff)
  have "\<not> rejected_listener kv" if "plain_attribute kv" for kv
    using that by (cases kv rule: rejected_listener.cases) simp_all
  with VNode.prems have "\<not> list_ex rejected_listener (properties attributes)"
    by (auto simp: list_all_iff list_ex_iff)
  with kids quiet VNode.prems show ?case
    by (simp add: createElement_VNode del: createElement.simps)
qed simp_all

theorem roundtrip_witness:
  "well_formed (counter_view 0) \<and> host_plain (counter_view 0)
   \<and> \<not> createElement_throws (counter_view 0)
   \<and> read_back (createElement (counter_view 0))
     = VNode ''div'' (Some [])
         [VNode ''p'' (Some []) [JString ''0''],
          VNode ''button'' (Some [(''type'', AString ''button'')]) [JString ''count up'']]"
proof -
  have wf: "well_formed (counter_view 0)"
    by (simp add: counter_view_def h_def distinct_keys_def)
  have plain: "host_plain (counter_view 0)"
    by (simp add: counter_view_def h_def properties_def isEventAttr_def plain_name_def safe_integer_def)
  from roundtrip_visible_structure [OF wf plain] wf plain show ?thesis
    by (simp add: counter_view_def h_def properties_def isEventAttr_def Number_toString_def digits.simps)
qed

subsection \<open>Reconciliation\<close>

lemma updateChildren_done:
  "\<not> (i < length news \<or> i < length olds) \<Longrightarrow> updateChildren target olds news i = (None, target, [])"
  by (subst updateChildren.simps) simp

lemma updateChildren_undefined:
  "i < length news \<or> i < length olds \<Longrightarrow> updateChildren None olds news i = (Some TypeError, None, [])"
  by (subst updateChildren.simps) simp

lemma updateChildren_step:
  "i < length news \<or> i < length olds \<Longrightarrow>
   updateChildren (Some parent) olds news i =
     (case updateElement parent (nth_opt olds i) (nth_opt news i) i of
        (Some e, parent', calls) \<Rightarrow> (Some e, Some parent', calls)
      | (None, parent', calls) \<Rightarrow>
          (case updateChildren (Some parent') olds news (Suc i) of
             (e, target', calls') \<Rightarrow> (e, target', calls @ calls')))"
  by (subst updateChildren.simps) simp

lemma truthy_not_falsy: "truthy n \<Longrightarrow> \<not> falsy (Some n)"
  by (cases n) simp_all

lemma truthy_children: "truthy n \<Longrightarrow> list_all truthy (node_children n)"
  by (cases n) simp_all

lemma updateElement_same:
  "truthy n \<Longrightarrow>
   updateElement parent (Some n) (Some n) index =
     (if isVNode (Some n) then
        at_child parent index
          (updateChildren (nth_opt (childNodes parent) index) (node_children n) (node_children n) 0)
      else (None, parent, []))"
  by (simp add: updateElement.simps [of parent "Some n"] detect_same truthy_not_falsy)

lemma put_child_same: "put_child parent index (nth_opt (childNodes parent) index) = parent"
  by (cases parent) (simp_all add: nth_opt_def)

lemma childNodes_createElement_children:
  "isVNode (Some n) \<Longrightarrow> childNodes (createElement n) = map createElement (node_children n)"
  by (cases n) (simp_all add: childNodes_createElement isVNode_def del: createElement.simps)

text \<open>
  The same tree on both sides, with no falsy leaf: the reconciliation and its loop make
  no call and leave the node they were given as it was; and they do not throw when the
  native node is the materialisation of the tree.
\<close>

lemma same_tree:
  "\<forall>n. old = Some n \<and> new = Some n \<and> truthy n \<longrightarrow>
     snd (updateElement parent old new index) = (parent, [])
     \<and> (nth_opt (childNodes parent) index = Some (createElement n) \<longrightarrow>
          fst (updateElement parent old new index) = None)"
  "oldChildren = newChildren \<and> list_all truthy newChildren \<longrightarrow>
     snd (updateChildren target oldChildren newChildren i) = (target, [])
     \<and> ((\<exists>t. target = Some t \<and> childNodes t = map createElement newChildren) \<longrightarrow>
          fst (updateChildren target oldChildren newChildren i) = None)"
proof (induction parent old new index and target oldChildren newChildren i
    rule: updateElement_updateChildren.induct)
  case (1 parent old new index)
  show ?case
  proof (intro allI impI, elim conjE)
    fix n
    assume n: "old = Some n" "new = Some n" and t: "truthy n"
    let ?target = "nth_opt (childNodes parent) index"
    show "snd (updateElement parent old new index) = (parent, []) \<and>
      (?target = Some (createElement n) \<longrightarrow> fst (updateElement parent old new index) = None)"
    proof (cases "isVNode (Some n)")
      case False
      with t n show ?thesis by (simp add: updateElement_same)
    next
      case True
      let ?r = "updateChildren ?target (node_children n) (node_children n) 0"
      have ih: "snd ?r = (?target, []) \<and>
         ((\<exists>t. ?target = Some t \<and> childNodes t = map createElement (node_children n)) \<longrightarrow> fst ?r = None)"
        using "1.IH" [of n ?target n CT_None] n t True
        by (simp add: detect_same truthy_not_falsy truthy_children)
      obtain e t' calls where r: "?r = (e, t', calls)" by (cases ?r)
      with ih have "t' = ?target" "calls = []" by simp_all
      with r True t n have "updateElement parent old new index = (e, parent, [])"
        by (simp add: updateElement_same at_child_def put_child_same)
      moreover have "e = None" if "?target = Some (createElement n)"
        using ih r that True by (simp add: childNodes_createElement_children)
      ultimately show ?thesis by simp
    qed
  qed
next
  case (2 target oldChildren newChildren i)
  show ?case
  proof (intro impI, elim conjE)
    assume eq: "oldChildren = newChildren" and t: "list_all truthy newChildren"
    let ?r = "updateChildren target oldChildren newChildren i"
    show "snd ?r = (target, []) \<and>
      ((\<exists>t. target = Some t \<and> childNodes t = map createElement newChildren) \<longrightarrow> fst ?r = None)"
    proof (cases "i < length newChildren")
      case False
      with eq show ?thesis by (simp add: updateChildren_done)
    next
      case True
      show ?thesis
      proof (cases target)
        case None
        with True show ?thesis by (simp add: updateChildren_undefined)
      next
        case (Some p)
        let ?c = "newChildren ! i"
        let ?u = "updateElement p (nth_opt oldChildren i) (nth_opt newChildren i) i"
        from True t have tc: "truthy ?c" by (simp add: list_all_length)
        have ih1: "snd ?u = (p, []) \<and> (nth_opt (childNodes p) i = Some (createElement ?c) \<longrightarrow> fst ?u = None)"
          using "2.IH"(1) [of p] True Some eq tc by (simp add: nth_opt_def)
        obtain e where u: "?u = (e, p, [])" using ih1 by (cases ?u) auto
        show ?thesis
        proof (cases e)
          case (Some err)
          with u True \<open>target = Some p\<close> ih1 eq show ?thesis
            by (auto simp: updateChildren_step nth_opt_def)
        next
          case None
          let ?v = "updateChildren (Some p) oldChildren newChildren (Suc i)"
          have ih2: "snd ?v = (Some p, []) \<and>
             ((\<exists>t. Some p = Some t \<and> childNodes t = map createElement newChildren) \<longrightarrow> fst ?v = None)"
            using "2.IH"(2) [of p e "(p, [])" p "[]"] True \<open>target = Some p\<close> u None eq t by simp
          obtain e' where v: "?v = (e', Some p, [])" using ih2 by (cases ?v) auto
          from u v None True \<open>target = Some p\<close> have "?r = (e', Some p, [])"
            by (simp add: updateChildren_step)
          with ih2 v \<open>target = Some p\<close> show ?thesis by auto
        qed
      qed
    qed
  qed
qed

text \<open>
  C5, as stated: reconciling a tree with a tree equal to it by value, where two attribute
  mappings are equal when they hold the same pairs in any order, makes no native call. It
  does make calls at the pair below: the two mappings hold the same two pairs,
  \<^verbatim>\<open>JSON.stringify\<close> writes them in different orders, the nodes are classified as a change
  of attributes, and both attributes are removed and set again.
\<close>

theorem reconcile_reordered_attributes_mutates:
  "set [(''a'', AString ''1''), (''b'', AString ''2'')] = set [(''b'', AString ''2''), (''a'', AString ''1'')]
   \<and> detectVirtualDOMDifference
        (Some (VNode ''div'' (Some [(''a'', AString ''1''), (''b'', AString ''2'')]) []))
        (Some (VNode ''div'' (Some [(''b'', AString ''2''), (''a'', AString ''1'')]) [])) = Inr CT_Attr
   \<and> updateElement
        (Element ''div'' [] [] None
           [createElement (VNode ''div'' (Some [(''a'', AString ''1''), (''b'', AString ''2'')]) [])])
        (Some (VNode ''div'' (Some [(''a'', AString ''1''), (''b'', AString ''2'')]) []))
        (Some (VNode ''div'' (Some [(''b'', AString ''2''), (''a'', AString ''1'')]) [])) 0
      = (None,
         Element ''div'' [] [] None
           [Element ''div'' [(''b'', AString ''2''), (''a'', AString ''1'')] [] None []],
         [(Live [0], RemoveAttribute ''a''), (Live [0], RemoveAttribute ''b''),
          (Live [0], SetAttribute ''b'' (AString ''2'')), (Live [0], SetAttribute ''a'' (AString ''1''))])"
  by (simp add: updateElement.simps nth_opt_def detectVirtualDOMDifference_def isVNode_def
      properties_def value_of_def JSON_stringify_def json_quote_def json_escape_def at_child_def
      updateAttributes_def isEventAttr_def setAttributes_def insert_commute)

text \<open>
  C5, amended: for every tree whose number leaves are integers other than 0 and whose
  string leaves are not empty, reconciling the tree with itself, or with a tree equal to
  it by value where two attribute mappings are equal when they list the same keys in the
  same order with the same values, makes no native call and leaves the native tree as it
  was, whatever the native tree is; and it returns without throwing when the native child
  at the index is the materialisation of the tree.
\<close>

theorem reconcile_same_tree:
  "truthy n \<Longrightarrow>
     snd (updateElement parent (Some n) (Some n) index) = (parent, [])
     \<and> (nth_opt (childNodes parent) index = Some (createElement n) \<longrightarrow>
          updateElement parent (Some n) (Some n) index = (None, parent, []))"
  using same_tree(1) [of "Some n" "Some n" parent index]
  by (cases "updateElement parent (Some n) (Some n) index") auto

theorem reconcile_same_tree_witness:
  "truthy (counter_view 1)
   \<and> updateElement (Element ''div'' [(''id'', AString ''app'')] [] None [createElement (counter_view 1)])
        (Some (counter_view 1)) (Some (counter_view 1)) 0
     = (None, Element ''div'' [(''id'', AString ''app'')] [] None [createElement (counter_view 1)], [])"
proof -
  have t: "truthy (counter_view 1)"
    by (simp add: counter_view_def h_def)
  from reconcile_same_tree [OF t, of "Element ''div'' [(''id'', AString ''app'')] [] None [createElement (counter_view 1)]" 0] t
  show ?thesis by (simp add: nth_opt_def)
qed

text \<open>
  The hypothesis on the leaves is needed. The view of index.ts at the count 0 has the leaf
  0: reconciled with itself over its own materialisation, the text node of the count is
  removed.
\<close>

lemma same_tree_with_leaf_zero:
  "updateElement (Element ''div'' [(''id'', AString ''app'')] [] None [createElement (counter_view 0)])
      (Some (counter_view 0)) (Some (counter_view 0)) 0
   = (None,
      Element ''div'' [(''id'', AString ''app'')] [] None
        [Element ''div'' [] [] None
           [Element ''p'' [] [] None [],
            Element ''button'' [(''type'', AString ''button'')] [(''click'', AFunction 0)] None
              [TextNode ''count up'']]],
      [(Live [0, 0], RemoveChild 0)])"
  by (simp add: counter_view_def h_def updateElement.simps updateChildren.simps nth_opt_def
      detectVirtualDOMDifference_def isVNode_def value_of_def JSON_stringify_def at_child_def
      removeChild_def setAttributes_def properties_def isEventAttr_def Number_toString_def
      digits.simps)

text \<open>
  C2, at a failing input: the old node is \<^verbatim>\<open>h("div", {class: "a"}, "0")\<close>, the new node is
  \<^verbatim>\<open>h("div", {class: "b"}, "1")\<close>, and the native tree is the materialisation of the old
  node. The pair is classified as a change of attributes; the reconciler updates the
  attribute and returns. The children are not reconciled: the text stays \<^verbatim>\<open>0\<close>.
\<close>

theorem attributes_changed_skips_children:
  "detectVirtualDOMDifference
      (Some (VNode ''div'' (Some [(''class'', AString ''a'')]) [JString ''0'']))
      (Some (VNode ''div'' (Some [(''class'', AString ''b'')]) [JString ''1''])) = Inr CT_Attr
   \<and> updateElement
      (Element ''div'' [] [] None
         [createElement (VNode ''div'' (Some [(''class'', AString ''a'')]) [JString ''0''])])
      (Some (VNode ''div'' (Some [(''class'', AString ''a'')]) [JString ''0'']))
      (Some (VNode ''div'' (Some [(''class'', AString ''b'')]) [JString ''1''])) 0
     = (None,
        Element ''div'' [] [] None [Element ''div'' [(''class'', AString ''b'')] [] None [TextNode ''0'']],
        [(Live [0], RemoveAttribute ''class''), (Live [0], SetAttribute ''class'' (AString ''b''))])
   \<and> createElement (VNode ''div'' (Some [(''class'', AString ''b'')]) [JString ''1''])
     = Element ''div'' [(''class'', AString ''b'')] [] None [TextNode ''1'']"
  by (simp add: updateElement.simps nth_opt_def detectVirtualDOMDifference_def isVNode_def
      properties_def value_of_def JSON_stringify_def json_quote_def json_escape_def at_child_def
      updateAttributes_def isEventAttr_def setAttributes_def)

text \<open>
  C3, at failing inputs: a change of tag (\<^verbatim>\<open>div\<close> to \<^verbatim>\<open>input\<close> with a value) and a change
  of text (\<^verbatim>\<open>0\<close> to \<^verbatim>\<open>1\<close>). The native node is replaced and the children are not visited,
  but the call does not end there: \<^verbatim>\<open>updateValue\<close> runs in the same dispatch, on the node
  that was just taken out of the tree.
\<close>

theorem replacement_falls_through_to_updateValue:
  "updateElement (Element ''div'' [] [] None [Element ''div'' [] [] None []])
      (Some (VNode ''div'' (Some []) []))
      (Some (VNode ''input'' (Some [(''value'', AString ''x'')]) [])) 0
     = (None,
        Element ''div'' [] [] None [Element ''input'' [(''value'', AString ''x'')] [] None []],
        [(Live [], ReplaceChild 0 (Element ''input'' [(''value'', AString ''x'')] [] None [])),
         (Detached, SetValue (Some (AString ''x'')))])
   \<and> updateElement (Element ''p'' [] [] None [TextNode ''0'']) (Some (JString ''0'')) (Some (JString ''1'')) 0
     = (None,
        Element ''p'' [] [] None [TextNode ''1''],
        [(Live [], ReplaceChild 0 (TextNode ''1'')), (Detached, SetValue None)])"
  by (simp add: updateElement.simps nth_opt_def replaceChild_def detectVirtualDOMDifference_def
      isVNode_def setAttributes_def properties_def value_of_def isEventAttr_def)

text \<open>
  C4, at failing inputs: the old node is present and the new node is the number 0, or
  the empty string. The test \<^verbatim>\<open>!newNode\<close> is true of both, and the native child is removed;
  the nodes are not classified.
\<close>

theorem falsy_newNode_removes_child:
  "updateElement (Element ''p'' [] [] None [TextNode ''1'']) (Some (JNumber 1)) (Some (JNumber 0)) 0
     = (None, Element ''p'' [] [] None [], [(Live [], RemoveChild 0)])
   \<and> updateElement (Element ''p'' [] [] None [TextNode ''a'']) (Some (JString ''a'')) (Some (JString [])) 0
     = (None, Element ''p'' [] [] None [], [(Live [], RemoveChild 0)])
   \<and> detectVirtualDOMDifference (Some (JNumber 1)) (Some (JNumber 0)) = Inr CT_Text"
  by (simp add: updateElement.simps nth_opt_def removeChild_def detectVirtualDOMDifference_def isVNode_def)

subsection \<open>Scheduling\<close>

lemma dispatch_all:
  "foldl (\<lambda>host action. dispatched view action host) (app, queued) actions =
     (if actions = [] then (app, queued)
      else (app\<lparr>state := foldl (\<lambda>s action. action s) (state app) actions,
                newNode := Some (view (foldl (\<lambda>s action. action s) (state app) actions)),
                skipRender := True\<rparr>,
            if skipRender app then queued else Suc queued))"
proof (induction actions arbitrary: app queued)
  case Nil
  show ?case by simp
next
  case (Cons a actions)
  show ?case
    by (cases "actions = []") (simp_all add: Cons.IH)
qed

text \<open>
  The queue holds a \<open>render\<close> exactly when \<open>skipRender\<close> is set: so the constructor leaves
  the host, and so a \<open>render\<close> that returns leaves it.
\<close>

lemma new_App_pending:
  "\<exists>app. new_App root view initial = (app, 1) \<and> skipRender app \<and> newNode app = Some (view initial)"
  by (simp add: new_App_def)

lemma run_timeout_settles:
  "queued = (if skipRender app then 1 else 0) \<Longrightarrow>
   run_timeout (app, queued) = Some (None, (app', queued'), calls) \<Longrightarrow>
   queued' = (if skipRender app' then 1 else 0)"
  by (cases queued) (auto simp: render_def split: if_splits prod.splits option.splits)

text \<open>
  C6, as stated: one or more wrapped actions dispatched in one synchronous segment
  schedule and run exactly one reconciliation pass. Not in the run below. The application
  shows a list of three items; after its first render an action sets the state to one
  item, and the queued \<open>render\<close> throws in the reconciliation (the third native item is
  looked for at index 2 after the second was removed). \<open>skipRender\<close> stays set with nothing
  queued. The two actions dispatched in the next segment schedule nothing: no pass runs
  for them.
\<close>

theorem dispatch_after_failed_render_schedules_nothing:
  "run_timeout (new_App mount_point list_view 3)
     = Some (None,
         (\<lparr>element = Element ''div'' [(''id'', AString ''app'')] [] None [createElement (list_view 3)],
            state = 3, oldNode = Some (list_view 3), newNode = Some (list_view 3),
            skipRender = False\<rparr>, 0),
         [(Live [], AppendChild (createElement (list_view 3)))])
   \<and> run_timeout (dispatch_segment list_view [\<lambda>n. 1]
         (\<lparr>element = Element ''div'' [(''id'', AString ''app'')] [] None [createElement (list_view 3)],
            state = 3, oldNode = Some (list_view 3), newNode = Some (list_view 3),
            skipRender = False\<rparr>, 0))
     = Some (Some TypeError,
         (\<lparr>element = Element ''div'' [(''id'', AString ''app'')] [] None [createElement (list_view 2)],
            state = 1, oldNode = Some (list_view 3), newNode = Some (list_view 1),
            skipRender = True\<rparr>, 0),
         [(Live [0], RemoveChild 1)])
   \<and> dispatch_segment list_view [\<lambda>n. 2, \<lambda>n. 0]
         (\<lparr>element = Element ''div'' [(''id'', AString ''app'')] [] None [createElement (list_view 2)],
            state = 1, oldNode = Some (list_view 3), newNode = Some (list_view 1),
            skipRender = True\<rparr>, 0)
     = (\<lparr>element = Element ''div'' [(''id'', AString ''app'')] [] None [createElement (list_view 2)],
            state = 0, oldNode = Some (list_view 3), newNode = Some (list_view 0),
            skipRender = True\<rparr>, 0)
   \<and> run_timeout
         (\<lparr>element = Element ''div'' [(''id'', AString ''app'')] [] None [createElement (list_view 2)],
            state = 0::nat, oldNode = Some (list_view 3), newNode = Some (list_view 0),
            skipRender = True\<rparr>, 0)
     = None"
  by (simp add: dispatch_segment_def new_App_def mount_point_def render_def list_view_def h_def
      updateElement.simps updateChildren.simps nth_opt_def detectVirtualDOMDifference_def
      isVNode_def value_of_def JSON_stringify_def at_child_def removeChild_def setAttributes_def
      properties_def numeral_2_eq_2 numeral_3_eq_3)

text \<open>
  C6, amended: one or more wrapped actions dispatched in one synchronous segment schedule
  one \<open>render\<close> when \<open>skipRender\<close> is not set and none when it is set, run no reconciliation
  in the segment (the old tree and the root element are as before) and leave the view of
  the state after all the actions as the new tree. So from a host whose queue holds a
  \<open>render\<close> exactly when \<open>skipRender\<close> is set, as the constructor and every \<open>render\<close> that
  returns leave it, exactly one \<open>render\<close> is queued after the segment; when the event loop
  runs it, it reconciles the old tree with that new tree on the root element (the first
  time, it appends the materialisation of the new tree), and the queue is empty after it;
  when the reconciliation returns, the old tree is that new tree and \<open>skipRender\<close> is
  cleared, and when it throws, \<open>skipRender\<close> stays set.
\<close>

theorem coalescing:
  assumes "actions \<noteq> []"
  shows "dispatch_segment view actions (app, queued)
           = (app\<lparr>state := run_actions actions (state app),
                  newNode := Some (view (run_actions actions (state app))),
                  skipRender := True\<rparr>,
              if skipRender app then queued else Suc queued)
     \<and> (queued = (if skipRender app then 1 else 0) \<longrightarrow>
          snd (dispatch_segment view actions (app, queued)) = 1
          \<and> run_timeout (dispatch_segment view actions (app, queued))
            = Some (case (if \<not> falsy (oldNode app)
                          then updateElement (element app) (oldNode app)
                                 (Some (view (run_actions actions (state app)))) 0
                          else if createElement_throws (view (run_actions actions (state app)))
                          then (Some TypeError, element app, [])
                          else appendChild (element app)
                                 (createElement (view (run_actions actions (state app))))) of
                      (Some e, root, calls) \<Rightarrow>
                        (Some e,
                         (app\<lparr>element := root, state := run_actions actions (state app),
                              newNode := Some (view (run_actions actions (state app))),
                              skipRender := True\<rparr>, 0),
                         calls)
                    | (None, root, calls) \<Rightarrow>
                        (None,
                         (app\<lparr>element := root, state := run_actions actions (state app),
                              oldNode := Some (view (run_actions actions (state app))),
                              newNode := Some (view (run_actions actions (state app))),
                              skipRender := False\<rparr>, 0),
                         calls)))"
  using assms
  by (auto simp: dispatch_segment_def run_actions_def dispatch_all render_def
      split: prod.splits option.splits)

theorem coalescing_witness:
  "run_timeout (new_App mount_point counter_view 0)
     = Some (None,
         (\<lparr>element = Element ''div'' [(''id'', AString ''app'')] [] None [createElement (counter_view 0)],
            state = 0, oldNode = Some (counter_view 0), newNode = Some (counter_view 0),
            skipRender = False\<rparr>, 0),
         [(Live [], AppendChild (createElement (counter_view 0)))])
   \<and> dispatch_segment counter_view [increment, increment, increment]
         (\<lparr>element = Element ''div'' [(''id'', AString ''app'')] [] None [createElement (counter_view 0)],
            state = 0, oldNode = Some (counter_view 0), newNode = Some (counter_view 0),
            skipRender = False\<rparr>, 0)
     = (\<lparr>element = Element ''div'' [(''id'', AString ''app'')] [] None [createElement (counter_view 0)],
            state = 3, oldNode = Some (counter_view 0), newNode = Some (counter_view 3),
            skipRender = True\<rparr>, 1)
   \<and> run_timeout
         (\<lparr>element = Element ''div'' [(''id'', AString ''app'')] [] None [createElement (counter_view 0)],
            state = 3, oldNode = Some (counter_view 0), newNode = Some (counter_view 3),
            skipRender = True\<rparr>, 1)
     = Some (None,
         (\<lparr>element = Element ''div'' [(''id'', AString ''app'')] [] None [createElement (counter_view 3)],
            state = 3, oldNode = Some (counter_view 3), newNode = Some (counter_view 3),
            skipRender = False\<rparr>, 0),
         [(Live [0, 0], ReplaceChild 0 (TextNode ''3'')), (Detached, SetValue None)])"
  using coalescing [of "[increment, increment, increment]" counter_view
      "\<lparr>element = Element ''div'' [(''id'', AString ''app'')] [] None [createElement (counter_view 0)],
            state = 0, oldNode = Some (counter_view 0), newNode = Some (counter_view 0),
            skipRender = False\<rparr>" 0]
  by (simp add: run_actions_def increment_def new_App_def mount_point_def render_def
      counter_view_def h_def updateElement.simps updateChildren.simps nth_opt_def
      detectVirtualDOMDifference_def isVNode_def value_of_def JSON_stringify_def at_child_def
      replaceChild_def setAttributes_def properties_def isEventAttr_def Number_toString_def
      digits.simps)

text \<open>
  C9, as stated: every execution of \<open>render\<close> ends with the old tree equal to the new tree
  and \<open>skipRender\<close> cleared. Not the execution below. The application shows a list of three
  items; after its first render an action sets the state to one item. The reconciler
  removes the second native item, looks for the third at index 2, where nothing is left,
  and \<^verbatim>\<open>removeChild\<close> throws. \<open>render\<close> ends there: the old tree is still the list of
  three and \<open>skipRender\<close> is still set, with nothing queued.
\<close>

theorem render_throws_and_stays_pending:
  "run_timeout (new_App mount_point list_view 3)
     = Some (None,
         (\<lparr>element = Element ''div'' [(''id'', AString ''app'')] [] None [createElement (list_view 3)],
            state = 3, oldNode = Some (list_view 3), newNode = Some (list_view 3),
            skipRender = False\<rparr>, 0),
         [(Live [], AppendChild (createElement (list_view 3)))])
   \<and> run_timeout (dispatched list_view (\<lambda>n. 1)
         (\<lparr>element = Element ''div'' [(''id'', AString ''app'')] [] None [createElement (list_view 3)],
            state = 3, oldNode = Some (list_view 3), newNode = Some (list_view 3),
            skipRender = False\<rparr>, 0))
     = Some (Some TypeError,
         (\<lparr>element = Element ''div'' [(''id'', AString ''app'')] [] None [createElement (list_view 2)],
            state = 1, oldNode = Some (list_view 3), newNode = Some (list_view 1),
            skipRender = True\<rparr>, 0),
         [(Live [0], RemoveChild 1)])
   \<and> list_view 3 \<noteq> list_view 1"
  by (simp add: new_App_def mount_point_def render_def list_view_def h_def updateElement.simps
      updateChildren.simps nth_opt_def detectVirtualDOMDifference_def isVNode_def value_of_def
      JSON_stringify_def at_child_def removeChild_def setAttributes_def properties_def
      numeral_2_eq_2 numeral_3_eq_3)

text \<open>
  C9, amended: every execution of \<open>render\<close> that returns ends with the old tree equal to
  the new tree it reconciled and with \<open>skipRender\<close> cleared; an execution in which the
  reconciliation throws changes neither. \<open>skipRender\<close> is set whenever a render is
  scheduled, a dispatched action leaves it set, and neither scheduling nor a dispatched
  action changes the old tree: only a \<open>render\<close> that returns clears the one and updates
  the other.
\<close>

theorem render_bookkeeping:
  "(render app = (None, app', calls) \<longrightarrow>
      oldNode app' = newNode app \<and> \<not> skipRender app' \<and> newNode app' = newNode app
      \<and> state app' = state app)
   \<and> (render app = (Some e, app', calls) \<longrightarrow>
      oldNode app' = oldNode app \<and> skipRender app' = skipRender app \<and> newNode app' = newNode app)
   \<and> skipRender (fst (scheduleRender (app, queued)))
   \<and> oldNode (fst (scheduleRender (app, queued))) = oldNode app
   \<and> skipRender (fst (dispatched view action (app, queued)))
   \<and> oldNode (fst (dispatched view action (app, queued))) = oldNode app"
  by (auto simp: render_def split: prod.splits option.splits if_splits)

theorem render_bookkeeping_witness:
  "render \<lparr>element = mount_point, state = 0, oldNode = None, newNode = Some (counter_view 0),
            skipRender = True\<rparr>
     = (None,
        \<lparr>element = Element ''div'' [(''id'', AString ''app'')] [] None [createElement (counter_view 0)],
           state = 0, oldNode = Some (counter_view 0), newNode = Some (counter_view 0),
           skipRender = False\<rparr>,
        [(Live [], AppendChild (createElement (counter_view 0)))])"
  using render_bookkeeping
    [of "\<lparr>element = mount_point, state = 0, oldNode = None, newNode = Some (counter_view 0),
            skipRender = True\<rparr>"
        "\<lparr>element = Element ''div'' [(''id'', AString ''app'')] [] None [createElement (counter_view 0)],
           state = 0, oldNode = Some (counter_view 0), newNode = Some (counter_view 0),
           skipRender = False\<rparr>"
        "[(Live [], AppendChild (createElement (counter_view 0)))]"]
  by (simp add: render_def mount_point_def counter_view_materialises)

end
